theory Spec2Isabelle
  imports Complex_Main "HOL-Library.Multiset" "HOL-Library.Product_Lexorder"
begin

section \<open>Spreadsheet cells and text\<close>

text \<open>
  A cell of a sheet read by \<^verbatim>\<open>pd.read_excel\<close> is a scalar: missing (\<^verbatim>\<open>NaN\<close>, \<^verbatim>\<open>None\<close>,
  \<^verbatim>\<open>NaT\<close>), a text, an integer, or another non-null scalar (a float, a boolean, a
  datetime). Of the last kind the program only ever uses the text that \<^verbatim>\<open>str(x)\<close> renders,
  so such a cell is given by that text. A Python \<^verbatim>\<open>str\<close> is modelled by its list of
  code points, for code points below 256; on these the only characters that \<^verbatim>\<open>\d\<close>
  matches are \<^verbatim>\<open>0\<close> to \<^verbatim>\<open>9\<close>.
\<close>

datatype cell = Null | StrCell string | IntCell int | OtherCell string

text \<open>\<^verbatim>\<open>pd.isna(x)\<close> on a scalar.\<close>

definition isna :: "cell \<Rightarrow> bool" where
  "isna x = (x = Null)"

text \<open>Decimal rendering of an integer, as \<^verbatim>\<open>str\<close> prints it.\<close>

definition digit_char :: "nat \<Rightarrow> char" where
  "digit_char d = ''0123456789'' ! d"

fun nat_digits :: "nat \<Rightarrow> string" where
  "nat_digits n = (if n < 10 then [digit_char n] else nat_digits (n div 10) @ [digit_char (n mod 10)])"

declare nat_digits.simps [simp del]

definition int_str :: "int \<Rightarrow> string" where
  "int_str i = (if i < 0 then CHR ''-'' # nat_digits (nat (- i)) else nat_digits (nat i))"

fun py_str :: "cell \<Rightarrow> string" where
  "py_str Null = ''nan''"
| "py_str (StrCell s) = s"
| "py_str (IntCell i) = int_str i"
| "py_str (OtherCell s) = s"

text \<open>
  \<^verbatim>\<open>str.strip()\<close> removes leading and trailing whitespace; below code point 256 the
  whitespace characters are 9 to 13, 28 to 32, 133 and 160.
\<close>

definition is_space :: "char \<Rightarrow> bool" where
  "is_space c = ((of_char c :: nat) \<in> {9, 10, 11, 12, 13, 28, 29, 30, 31, 32, 133, 160})"

definition strip :: "string \<Rightarrow> string" where
  "strip s = rev (dropWhile is_space (rev (dropWhile is_space s)))"

text \<open>
  \<^verbatim>\<open>re.sub(r"\.0$", "", s)\<close>: the anchor matches at the end of the text and also just
  before a final newline, so at most one occurrence is removed.
\<close>

definition sub_dot_zero :: "string \<Rightarrow> string" where
  "sub_dot_zero s =
     (let n = length s in
      if 2 \<le> n \<and> drop (n - 2) s = ''.0'' then take (n - 2) s
      else if 3 \<le> n \<and> drop (n - 3) s = [CHR ''.'', CHR ''0'', CHR 0x0A] then take (n - 3) s @ [CHR 0x0A]
      else s)"

definition is_digit :: "char \<Rightarrow> bool" where
  "is_digit c = (c \<in> set ''0123456789'')"

text \<open>\<^verbatim>\<open>re.sub(r"\D+", "", s)\<close> deletes every maximal run of non-digits.\<close>

definition sub_non_digits :: "string \<Rightarrow> string" where
  "sub_non_digits s = filter is_digit s"

definition normalize_phone :: "cell \<Rightarrow> string" where
  "normalize_phone x =
     (if isna x then ''''
      else sub_non_digits (sub_dot_zero (strip (py_str x))))"

section \<open>Sheets and the merged frame\<close>

text \<open>
  A sheet is what \<^verbatim>\<open>pd.read_excel\<close> returns for one file: its column names and its rows,
  each row a list of cells aligned with the columns (a row shorter than the header has
  missing cells at its end). \<^verbatim>\<open>file_name\<close> is the base name of the file.
\<close>

record sheet =
  file_name :: string
  sheet_columns :: "string list"
  sheet_rows :: "cell list list"

type_synonym raw_row = "(string \<times> cell) list"

record frame =
  columns :: "string list"
  rows :: "raw_row list"

datatype error = KeyError string | DatetimeOverflow

definition cell_of :: "raw_row \<Rightarrow> string \<Rightarrow> cell" where
  "cell_of r k = (case map_of r k of None \<Rightarrow> Null | Some v \<Rightarrow> v)"

text \<open>\<^verbatim>\<open>df["Source_File"] = os.path.basename(f)\<close>: the column is added, or overwritten.\<close>

definition tag_source :: "sheet \<Rightarrow> frame" where
  "tag_source f =
     \<lparr>columns = (if ''Source_File'' \<in> set (sheet_columns f) then sheet_columns f
                 else sheet_columns f @ [''Source_File'']),
      rows = map (\<lambda>r. (''Source_File'', StrCell (file_name f)) # zip (sheet_columns f) r)
                 (sheet_rows f)\<rparr>"

text \<open>
  \<^verbatim>\<open>pd.concat(frames, ignore_index=True)\<close>: the rows of all frames in order, over the
  union of their columns; a row has a missing cell in every column its own frame lacks.
\<close>

definition concat_frames :: "frame list \<Rightarrow> frame" where
  "concat_frames fs = \<lparr>columns = remdups (concat (map columns fs)), rows = concat (map rows fs)\<rparr>"

text \<open>\<^verbatim>\<open>data[k]\<close> raises \<^verbatim>\<open>KeyError\<close> when the frame has no column \<^verbatim>\<open>k\<close>.\<close>

definition column :: "frame \<Rightarrow> string \<Rightarrow> error + cell list" where
  "column df k = (if k \<in> set (columns df) then Inr (map (\<lambda>r. cell_of r k) (rows df)) else Inl (KeyError k))"

section \<open>Dates\<close>

text \<open>
  A timestamp is a number of nanoseconds since the epoch, as \<^verbatim>\<open>datetime64[ns]\<close> stores it;
  \<^verbatim>\<open>NaT\<close> is \<open>None\<close>. What the program takes from its libraries and from the clock is
  collected in a record: the two parsers of \<^verbatim>\<open>pd.to_datetime\<close> with \<^verbatim>\<open>errors="coerce"\<close>
  (from the three fragments of a row, and from a text with the day first), the float
  arithmetic \<^verbatim>\<open>(delta / timedelta(days=30)).round(1)\<close> on a difference in nanoseconds
  (a finite float is a rational number), and the day the run starts. A parser is given
  the whole column and one entry of it, since pandas may settle on one format for a
  column, so that the date of a cell can depend on the other cells.
\<close>

type_synonym timestamp = int

record env =
  to_datetime_ymd :: "(cell \<times> cell \<times> cell) list \<Rightarrow> cell \<times> cell \<times> cell \<Rightarrow> timestamp option"
  to_datetime_text :: "cell list \<Rightarrow> cell \<Rightarrow> timestamp option"
  round_months :: "int \<Rightarrow> rat"
  today :: timestamp

definition PREDICT_REMAINING_WEEKS :: int where
  "PREDICT_REMAINING_WEEKS = 20"

definition DEFAULT_FAKE_THRESHOLD :: int where
  "DEFAULT_FAKE_THRESHOLD = 70"

definition days :: "int \<Rightarrow> int" where
  "days n = n * 86400000000000"

definition int64_max :: int where
  "int64_max = 2 ^ 63 - 1"

text \<open>Datetime arithmetic of pandas adds 64-bit integers and raises when the sum leaves the range.\<close>

definition add_overflowsafe :: "int \<Rightarrow> int \<Rightarrow> error + int" where
  "add_overflowsafe a b =
     (let s = a + b in if s < - int64_max - 1 \<or> int64_max < s then Inl DatetimeOverflow else Inr s)"

text \<open>
  \<^verbatim>\<open>s.isna().mean() < 0.9\<close>. The mean is the float quotient of the number of \<^verbatim>\<open>NaT\<close> by the
  number of rows; against the float \<^verbatim>\<open>0.9\<close> it compares as the exact fraction does for
  every frame of fewer than \<open>10^15\<close> rows. The mean of an empty column is \<^verbatim>\<open>NaN\<close>, and the
  comparison is then false.
\<close>

definition isna_mean_below :: "'a option list \<Rightarrow> bool" where
  "isna_mean_below s = (s \<noteq> [] \<and> 10 * length (filter (\<lambda>d. d = None) s) < 9 * length s)"

text \<open>
  \<^verbatim>\<open>df[["Year", "Month.1", "Day"]]\<close> and \<^verbatim>\<open>df["Date"]\<close>; they are read only where the frame
  has these columns.
\<close>

definition ymd_cells :: "frame \<Rightarrow> (cell \<times> cell \<times> cell) list" where
  "ymd_cells df = map (\<lambda>r. (cell_of r ''Year'', cell_of r ''Month.1'', cell_of r ''Day'')) (rows df)"

definition date_cells :: "frame \<Rightarrow> cell list" where
  "date_cells df = map (\<lambda>r. cell_of r ''Date'') (rows df)"

definition fragment_dates :: "env \<Rightarrow> frame \<Rightarrow> timestamp option list" where
  "fragment_dates E df = map (to_datetime_ymd E (ymd_cells df)) (ymd_cells df)"

definition text_dates :: "env \<Rightarrow> frame \<Rightarrow> timestamp option list" where
  "text_dates E df = map (to_datetime_text E (date_cells df)) (date_cells df)"

definition date_fallback :: "env \<Rightarrow> frame \<Rightarrow> timestamp option list" where
  "date_fallback E df =
     (if ''Date'' \<in> set (columns df) then text_dates E df
      else replicate (length (rows df)) None)"

definition build_register_date :: "env \<Rightarrow> frame \<Rightarrow> timestamp option list" where
  "build_register_date E df =
     (if {''Year'', ''Month.1'', ''Day''} \<subseteq> set (columns df) then
        (let s = fragment_dates E df in
         if isna_mean_below s then s else date_fallback E df)
      else date_fallback E df)"

section \<open>Status and predictions\<close>

datatype status = Pregnant | Has_Child | Unknown

text \<open>\<^verbatim>\<open>row.get(k)\<close> is \<^verbatim>\<open>None\<close> when the row has no such column.\<close>

definition pregnancy_status :: "raw_row \<Rightarrow> status" where
  "pregnancy_status r =
     (if \<not> isna (cell_of r ''S1'') then Pregnant
      else if \<not> isna (cell_of r ''S2'') then Has_Child
      else Unknown)"

text \<open>A list of results is a result: the first failure, or all the values.\<close>

fun collect :: "('e + 'a) list \<Rightarrow> 'e + 'a list" where
  "collect [] = Inr []"
| "collect (x # xs) =
     (case x of Inl e \<Rightarrow> Inl e
      | Inr v \<Rightarrow> (case collect xs of Inl e \<Rightarrow> Inl e | Inr vs \<Rightarrow> Inr (v # vs)))"

text \<open>
  The predicted birth date starts as \<^verbatim>\<open>NaT\<close> in every row; the rows with status
  \<^verbatim>\<open>Pregnant\<close> get the registration date plus the remaining weeks, and \<^verbatim>\<open>NaT\<close> stays
  \<^verbatim>\<open>NaT\<close> under the addition.
\<close>

definition predicted_birth :: "status \<Rightarrow> timestamp option \<Rightarrow> error + timestamp option" where
  "predicted_birth st d =
     (if st = Pregnant then
        (case d of None \<Rightarrow> Inr None
         | Some t \<Rightarrow>
            (case add_overflowsafe t (days (PREDICT_REMAINING_WEEKS * 7)) of
               Inl e \<Rightarrow> Inl e | Inr p \<Rightarrow> Inr (Some p)))
      else Inr None)"

text \<open>
  The child age starts as \<^verbatim>\<open>pd.NA\<close> in every row; the rows with status \<^verbatim>\<open>Has_Child\<close> get
  \<^verbatim>\<open>today - Register_Date\<close> in units of 30 days, rounded to one decimal (\<^verbatim>\<open>NaN\<close> when the
  date is \<^verbatim>\<open>NaT\<close>).
\<close>

definition child_age :: "env \<Rightarrow> status \<Rightarrow> timestamp option \<Rightarrow> error + rat option" where
  "child_age E st d =
     (if st = Has_Child then
        (case d of None \<Rightarrow> Inr None
         | Some t \<Rightarrow>
            (case add_overflowsafe (today E) (- t) of
               Inl e \<Rightarrow> Inl e | Inr delta \<Rightarrow> Inr (Some (round_months E delta))))
      else Inr None)"

section \<open>Fake score\<close>

datatype label = High | Medium | Low

text \<open>\<^verbatim>\<open>data.duplicated("Mobile_norm", keep=False)\<close> marks every row whose value occurs again.\<close>

definition duplicated_all :: "'a list \<Rightarrow> bool list" where
  "duplicated_all xs = map (\<lambda>x. 1 < count_list xs x) xs"

definition astype_int :: "bool \<Rightarrow> int" where
  "astype_int b = (if b then 1 else 0)"

definition fillna0 :: "rat option \<Rightarrow> rat" where
  "fillna0 a = (case a of None \<Rightarrow> 0 | Some v \<Rightarrow> v)"

definition raw_score :: "cell \<Rightarrow> string \<Rightarrow> bool \<Rightarrow> timestamp option \<Rightarrow> rat option \<Rightarrow> int" where
  "raw_score first_name mobile_norm dup register_date age =
     0 + astype_int (isna first_name) * 20
       + astype_int (length mobile_norm < 9) * 25
       + astype_int dup * 20
       + astype_int (register_date = None) * 15
       + astype_int (72 < fillna0 age) * 20"

definition clip :: "int \<Rightarrow> int \<Rightarrow> int \<Rightarrow> int" where
  "clip lo hi x = min hi (max lo x)"

text \<open>\<^verbatim>\<open>pd.cut\<close> with bins \<^verbatim>\<open>[-1, 30, 70, 100]\<close>: intervals open on the left, closed on the right.\<close>

definition cut_label :: "int \<Rightarrow> label option" where
  "cut_label s =
     (if -1 < s \<and> s \<le> 30 then Some High
      else if 30 < s \<and> s \<le> 70 then Some Medium
      else if 70 < s \<and> s \<le> 100 then Some Low
      else None)"

section \<open>The pipeline\<close>

text \<open>
  A row of the scored frame: the cells read from the sheet, with the source tag, and the
  columns that \<^verbatim>\<open>main\<close> derives.
\<close>

record row =
  raw :: raw_row
  Mobile_norm :: string
  Register_Date :: "timestamp option"
  Pregnancy_Status :: status
  Predicted_Giving_Birth_Date :: "timestamp option"
  Child_Age_Months :: "rat option"
  Fake_Score :: int
  Confidence_Label :: "label option"
  Sales_Ready :: bool

text \<open>The frame after scoring, row by row, from the columns computed so far.\<close>

definition scored_row ::
  "raw_row list \<Rightarrow> cell list \<Rightarrow> string list \<Rightarrow> timestamp option list \<Rightarrow> status list \<Rightarrow>
   timestamp option list \<Rightarrow> rat option list \<Rightarrow> nat \<Rightarrow> row" where
  "scored_row rs first_name mobile_norm register_date status predicted age i =
     (let score = clip 0 100 (raw_score (first_name ! i) (mobile_norm ! i)
                    (duplicated_all mobile_norm ! i) (register_date ! i) (age ! i))
      in \<lparr>raw = rs ! i,
          Mobile_norm = mobile_norm ! i,
          Register_Date = register_date ! i,
          Pregnancy_Status = status ! i,
          Predicted_Giving_Birth_Date = predicted ! i,
          Child_Age_Months = age ! i,
          Fake_Score = score,
          Confidence_Label = cut_label score,
          Sales_Ready = (score \<le> DEFAULT_FAKE_THRESHOLD)\<rparr>)"

text \<open>
  Everything of \<^verbatim>\<open>main\<close> between the merge and the sort. Every column has one entry for
  each row of the merged frame, so the rows are assembled by position.
\<close>

definition score_frame :: "env \<Rightarrow> frame \<Rightarrow> error + row list" where
  "score_frame E data =
     (case column data ''Mobile'' of Inl e \<Rightarrow> Inl e
      | Inr mobile \<Rightarrow>
     (let mobile_norm = map normalize_phone mobile;
          register_date = build_register_date E data;
          status = map pregnancy_status (rows data)
      in case collect (map2 predicted_birth status register_date) of Inl e \<Rightarrow> Inl e
      | Inr predicted \<Rightarrow>
     (case collect (map2 (child_age E) status register_date) of Inl e \<Rightarrow> Inl e
      | Inr age \<Rightarrow>
     (case column data ''FirstName'' of Inl e \<Rightarrow> Inl e
      | Inr first_name \<Rightarrow>
        Inr (map (scored_row (rows data) first_name mobile_norm register_date status predicted age)
                 [0 ..< length (rows data)])))))"

text \<open>
  \<^verbatim>\<open>data.sort_values(["Fake_Score", "Register_Date"])\<close>: ascending on both keys, with
  \<^verbatim>\<open>NaT\<close> after every date (\<^verbatim>\<open>na_position="last"\<close>).
\<close>

definition date_key :: "timestamp option \<Rightarrow> nat \<times> int" where
  "date_key d = (case d of None \<Rightarrow> (1, 0) | Some t \<Rightarrow> (0, t))"

definition sort_values :: "row list \<Rightarrow> row list" where
  "sort_values xs = sort_key (\<lambda>r. (Fake_Score r, date_key (Register_Date r))) xs"

definition merge_files :: "sheet list \<Rightarrow> frame" where
  "merge_files files = concat_frames (map tag_source files)"

text \<open>
  \<^verbatim>\<open>main\<close> on the sheets of the files it found: nothing is exported when there is no file;
  otherwise the run raises, or exports the sorted frame.
\<close>

definition main :: "env \<Rightarrow> sheet list \<Rightarrow> (error + row list) option" where
  "main E files =
     (if files = [] then None
      else Some (case score_frame E (merge_files files) of Inl e \<Rightarrow> Inl e
                 | Inr data \<Rightarrow> Inr (sort_values data)))"

section \<open>A sample run\<close>

text \<open>
  Two files of three and two rows. The parsers are tables over the cells of the sample
  (dates are midnights, in nanoseconds since 1970); the run starts on 2026-11-04.
\<close>

definition sample_ymd :: "(cell \<times> cell \<times> cell) list \<Rightarrow> cell \<times> cell \<times> cell \<Rightarrow> timestamp option" where
  "sample_ymd col = (\<lambda>(y, m, d).
     (if y = IntCell 2024 \<and> m = IntCell 2 \<and> d = IntCell 1 then Some 1706745600000000000
      else if y = IntCell 2024 \<and> m = IntCell 3 \<and> d = IntCell 5 then Some 1709596800000000000
      else None))"

definition sample_text :: "cell list \<Rightarrow> cell \<Rightarrow> timestamp option" where
  "sample_text col c =
     map_of [(StrCell ''01/02/2024'', 1706745600000000000),
             (StrCell ''05/03/2024'', 1709596800000000000),
             (StrCell ''01/01/2015'', 1420070400000000000)] c"

definition sample_round_months :: "int \<Rightarrow> rat" where
  "sample_round_months delta = of_int ((20 * delta + days 30) div (2 * days 30)) / 10"

definition sample_env :: env where
  "sample_env =
     \<lparr>to_datetime_ymd = sample_ymd, to_datetime_text = sample_text,
      round_months = sample_round_months, today = 1793750400000000000\<rparr>"

definition sample_files :: "sheet list" where
  "sample_files =
     [\<lparr>file_name = ''a.xlsx'',
       sheet_columns = [''FirstName'', ''Mobile'', ''S1'', ''S2'', ''Date''],
       sheet_rows =
         [[StrCell ''Lan'', OtherCell ''84901234567.0'', StrCell ''x'', Null, StrCell ''05/03/2024''],
          [Null, IntCell 12345, Null, Null, StrCell ''05/03/2024''],
          [StrCell ''Mai'', StrCell ''n/a'', Null, StrCell ''y'', StrCell ''01/01/2015'']]\<rparr>,
      \<lparr>file_name = ''b.xlsx'',
       sheet_columns = [''FirstName'', ''Mobile'', ''S2'', ''Date''],
       sheet_rows =
         [[StrCell ''Hoa'', StrCell ''+84 901 234 567'', StrCell ''y'', StrCell ''01/02/2024''],
          [Null, Null, Null, Null]]\<rparr>]"

text \<open>The merged frame of the sample, and the five rows that the run exports.\<close>

definition sample_frame :: frame where
  "sample_frame =
     \<lparr>columns = [''S1'', ''FirstName'', ''Mobile'', ''S2'', ''Date'', ''Source_File''],
      rows =
        [[(''Source_File'', StrCell ''a.xlsx''), (''FirstName'', StrCell ''Lan''),
          (''Mobile'', OtherCell ''84901234567.0''), (''S1'', StrCell ''x''), (''S2'', Null),
          (''Date'', StrCell ''05/03/2024'')],
         [(''Source_File'', StrCell ''a.xlsx''), (''FirstName'', Null),
          (''Mobile'', IntCell 12345), (''S1'', Null), (''S2'', Null),
          (''Date'', StrCell ''05/03/2024'')],
         [(''Source_File'', StrCell ''a.xlsx''), (''FirstName'', StrCell ''Mai''),
          (''Mobile'', StrCell ''n/a''), (''S1'', Null), (''S2'', StrCell ''y''),
          (''Date'', StrCell ''01/01/2015'')],
         [(''Source_File'', StrCell ''b.xlsx''), (''FirstName'', StrCell ''Hoa''),
          (''Mobile'', StrCell ''+84 901 234 567''), (''S2'', StrCell ''y''),
          (''Date'', StrCell ''01/02/2024'')],
         [(''Source_File'', StrCell ''b.xlsx''), (''FirstName'', Null),
          (''Mobile'', Null), (''S2'', Null), (''Date'', Null)]]\<rparr>"

definition sample_row_lan :: row where
  "sample_row_lan =
     \<lparr>raw = [(''Source_File'', StrCell ''a.xlsx''), (''FirstName'', StrCell ''Lan''),
             (''Mobile'', OtherCell ''84901234567.0''), (''S1'', StrCell ''x''), (''S2'', Null),
             (''Date'', StrCell ''05/03/2024'')],
      Mobile_norm = ''84901234567'', Register_Date = Some 1709596800000000000,
      Pregnancy_Status = Pregnant, Predicted_Giving_Birth_Date = Some 1721692800000000000,
      Child_Age_Months = None, Fake_Score = 20, Confidence_Label = Some High,
      Sales_Ready = True\<rparr>"

definition sample_row_anon :: row where
  "sample_row_anon =
     \<lparr>raw = [(''Source_File'', StrCell ''a.xlsx''), (''FirstName'', Null),
             (''Mobile'', IntCell 12345), (''S1'', Null), (''S2'', Null),
             (''Date'', StrCell ''05/03/2024'')],
      Mobile_norm = ''12345'', Register_Date = Some 1709596800000000000,
      Pregnancy_Status = Unknown, Predicted_Giving_Birth_Date = None,
      Child_Age_Months = None, Fake_Score = 45, Confidence_Label = Some Medium,
      Sales_Ready = True\<rparr>"

definition sample_row_mai :: row where
  "sample_row_mai =
     \<lparr>raw = [(''Source_File'', StrCell ''a.xlsx''), (''FirstName'', StrCell ''Mai''),
             (''Mobile'', StrCell ''n/a''), (''S1'', Null), (''S2'', StrCell ''y''),
             (''Date'', StrCell ''01/01/2015'')],
      Mobile_norm = [], Register_Date = Some 1420070400000000000,
      Pregnancy_Status = Has_Child, Predicted_Giving_Birth_Date = None,
      Child_Age_Months = Some (721 / 5), Fake_Score = 65, Confidence_Label = Some Medium,
      Sales_Ready = True\<rparr>"

definition sample_row_hoa :: row where
  "sample_row_hoa =
     \<lparr>raw = [(''Source_File'', StrCell ''b.xlsx''), (''FirstName'', StrCell ''Hoa''),
             (''Mobile'', StrCell ''+84 901 234 567''), (''S2'', StrCell ''y''),
             (''Date'', StrCell ''01/02/2024'')],
      Mobile_norm = ''84901234567'', Register_Date = Some 1706745600000000000,
      Pregnancy_Status = Has_Child, Predicted_Giving_Birth_Date = None,
      Child_Age_Months = Some (168 / 5), Fake_Score = 20, Confidence_Label = Some High,
      Sales_Ready = True\<rparr>"

definition sample_row_blank :: row where
  "sample_row_blank =
     \<lparr>raw = [(''Source_File'', StrCell ''b.xlsx''), (''FirstName'', Null),
             (''Mobile'', Null), (''S2'', Null), (''Date'', Null)],
      Mobile_norm = [], Register_Date = None,
      Pregnancy_Status = Unknown, Predicted_Giving_Birth_Date = None,
      Child_Age_Months = None, Fake_Score = 80, Confidence_Label = Some Low,
      Sales_Ready = False\<rparr>"

definition sample_scored :: "row list" where
  "sample_scored = [sample_row_lan, sample_row_anon, sample_row_mai, sample_row_hoa, sample_row_blank]"

definition sample_out :: "row list" where
  "sample_out = [sample_row_hoa, sample_row_lan, sample_row_anon, sample_row_mai, sample_row_blank]"

text \<open>
  A frame with the three fragment columns: the second row has no year, and a date text
  that parses.
\<close>

definition sample_ymd_frame :: frame where
  "sample_ymd_frame =
     \<lparr>columns = [''Year'', ''Month.1'', ''Day'', ''Date''],
      rows =
        [[(''Year'', IntCell 2024), (''Month.1'', IntCell 2), (''Day'', IntCell 1),
          (''Date'', StrCell ''01/02/2024'')],
         [(''Year'', Null), (''Month.1'', IntCell 3), (''Day'', IntCell 5),
          (''Date'', StrCell ''05/03/2024'')],
         [(''Year'', IntCell 2024), (''Month.1'', IntCell 3), (''Day'', IntCell 5),
          (''Date'', Null)]]\<rparr>"

definition sample_bare_frame :: frame where
  "sample_bare_frame = \<lparr>columns = [''Mobile''], rows = [[(''Mobile'', Null)]]\<rparr>"

section \<open>What every scored row satisfies\<close>

text \<open>
  The facts that tie the derived fields of a row to its own cells and to the normalized
  phones of the whole batch.
\<close>

definition row_facts :: "env \<Rightarrow> string list \<Rightarrow> row \<Rightarrow> bool" where
  "row_facts E phones r =
     (Mobile_norm r = normalize_phone (cell_of (raw r) ''Mobile'')
      \<and> Pregnancy_Status r = pregnancy_status (raw r)
      \<and> predicted_birth (Pregnancy_Status r) (Register_Date r) = Inr (Predicted_Giving_Birth_Date r)
      \<and> child_age E (Pregnancy_Status r) (Register_Date r) = Inr (Child_Age_Months r)
      \<and> Fake_Score r = clip 0 100 (raw_score (cell_of (raw r) ''FirstName'') (Mobile_norm r)
            (1 < count_list phones (Mobile_norm r)) (Register_Date r) (Child_Age_Months r))
      \<and> Confidence_Label r = cut_label (Fake_Score r)
      \<and> Sales_Ready r = (Fake_Score r \<le> DEFAULT_FAKE_THRESHOLD))"

section \<open>Properties of the field normalizer\<close>



section \<open>The pipeline, row by row\<close>

lemma collect_Inr: "collect xs = Inr ys \<Longrightarrow> xs = map Inr ys"
  by (induction xs arbitrary: ys) (auto split: sum.splits)

lemma collect_length: "collect xs = Inr ys \<Longrightarrow> length ys = length xs"
  by (drule collect_Inr) simp

lemma length_date_fallback: "length (date_fallback E df) = length (rows df)"
  by (simp add: date_fallback_def text_dates_def date_cells_def)

lemma length_build_register_date: "length (build_register_date E df) = length (rows df)"
  by (simp add: build_register_date_def Let_def fragment_dates_def ymd_cells_def
      length_date_fallback)

lemma score_frame_Inr:
  assumes "score_frame E data = Inr out"
  obtains first_name predicted age where
    "''Mobile'' \<in> set (columns data)"
    "column data ''FirstName'' = Inr first_name"
    "collect (map2 predicted_birth (map pregnancy_status (rows data)) (build_register_date E data)) = Inr predicted"
    "collect (map2 (child_age E) (map pregnancy_status (rows data)) (build_register_date E data)) = Inr age"
    "out = map (scored_row (rows data) first_name
                 (map (\<lambda>r. normalize_phone (cell_of r ''Mobile'')) (rows data))
                 (build_register_date E data) (map pregnancy_status (rows data)) predicted age)
               [0 ..< length (rows data)]"
  using assms
  by (auto simp: score_frame_def column_def Let_def comp_def split: sum.splits if_splits)

lemma length_score_frame: "score_frame E data = Inr out \<Longrightarrow> length out = length (rows data)"
  by (erule score_frame_Inr) simp

lemma count_list_gt1_iff:
  "i < length xs \<Longrightarrow> (1 < count_list xs (xs ! i)) = (\<exists>j<length xs. j \<noteq> i \<and> xs ! j = xs ! i)"
proof (induction xs arbitrary: i)
  case Nil
  then show ?case by simp
next
  case (Cons x xs)
  show ?case
  proof (cases i)
    case 0
    have "(0 < count_list xs x) = (\<exists>j<length xs. xs ! j = x)"
      by (metis count_list_0_iff in_set_conv_nth neq0_conv)
    also have "\<dots> = (\<exists>j<Suc (length xs). j \<noteq> 0 \<and> (x # xs) ! j = x)"
      by (metis Suc_less_eq nat.discI not0_implies_Suc nth_Cons_Suc)
    finally show ?thesis using 0 by simp
  next
    case (Suc k)
    with Cons.prems have k: "k < length xs" by simp
    show ?thesis
    proof (cases "x = xs ! k")
      case True
      have "0 < count_list xs (xs ! k)" using k by (metis count_list_0_iff nth_mem neq0_conv)
      moreover have "\<exists>j<length (x # xs). j \<noteq> i \<and> (x # xs) ! j = (x # xs) ! i"
        using True Suc by (intro exI[of _ 0]) simp
      ultimately show ?thesis using True Suc by simp
    next
      case False
      have "(\<exists>j<length (x # xs). j \<noteq> i \<and> (x # xs) ! j = (x # xs) ! i)
            = (\<exists>j<length xs. j \<noteq> k \<and> xs ! j = xs ! k)" (is "?L = ?R")
      proof
        assume ?L
        then obtain j where j: "j < length (x # xs)" "j \<noteq> i" "(x # xs) ! j = (x # xs) ! i" by blast
        with False Suc obtain j' where "j = Suc j'" by (cases j) auto
        with j Suc show ?R by auto
      next
        assume ?R
        then obtain j where "j < length xs" "j \<noteq> k" "xs ! j = xs ! k" by blast
        then show ?L using Suc by (intro exI[of _ "Suc j"]) simp
      qed
      then show ?thesis using False Suc Cons.IH[OF k] by simp
    qed
  qed
qed


lemma map2_nth_Inr:
  assumes "collect (map2 f xs ys) = Inr zs" "i < length xs" "length ys = length xs"
  shows "f (xs ! i) (ys ! i) = Inr (zs ! i)"
proof -
  have "map2 f xs ys = map Inr zs" using assms(1) by (rule collect_Inr)
  moreover have "i < length (map2 f xs ys)" using assms by simp
  ultimately have "map2 f xs ys ! i = Inr (zs ! i)" by (metis length_map nth_map)
  then show ?thesis using assms by simp
qed

lemma scored_row_columns:
  assumes "length ph = n" "length d = n"
  shows "map Mobile_norm (map (scored_row rs fn ph d st p a) [0 ..< n]) = ph"
    and "map Register_Date (map (scored_row rs fn ph d st p a) [0 ..< n]) = d"
proof -
  show "map Mobile_norm (map (scored_row rs fn ph d st p a) [0 ..< n]) = ph"
    using assms(1) by (intro nth_equalityI) (simp_all add: scored_row_def Let_def)
  show "map Register_Date (map (scored_row rs fn ph d st p a) [0 ..< n]) = d"
    using assms(2) by (intro nth_equalityI) (simp_all add: scored_row_def Let_def)
qed

lemma score_frame_phones:
  assumes "score_frame E data = Inr scored"
  shows "map Mobile_norm scored = map (\<lambda>r. normalize_phone (cell_of r ''Mobile'')) (rows data)"
proof -
  from assms obtain first_name predicted age where
    "scored = map (scored_row (rows data) first_name
                 (map (\<lambda>r. normalize_phone (cell_of r ''Mobile'')) (rows data))
                 (build_register_date E data) (map pregnancy_status (rows data)) predicted age)
               [0 ..< length (rows data)]"
    by (rule score_frame_Inr)
  then show ?thesis
    by (simp only: scored_row_columns(1) length_map length_build_register_date)
qed

lemma score_frame_dates:
  assumes "score_frame E data = Inr scored"
  shows "map Register_Date scored = build_register_date E data"
proof -
  from assms obtain first_name predicted age where
    "scored = map (scored_row (rows data) first_name
                 (map (\<lambda>r. normalize_phone (cell_of r ''Mobile'')) (rows data))
                 (build_register_date E data) (map pregnancy_status (rows data)) predicted age)
               [0 ..< length (rows data)]"
    by (rule score_frame_Inr)
  then show ?thesis
    by (simp only: scored_row_columns(2) length_map length_build_register_date)
qed

lemma score_frame_nth:
  assumes sf: "score_frame E data = Inr scored" and i: "i < length (rows data)"
  shows "row_facts E (map Mobile_norm scored) (scored ! i) \<and> raw (scored ! i) = rows data ! i"
proof -
  let ?n = "length (rows data)"
  let ?st = "map pregnancy_status (rows data)"
  let ?d = "build_register_date E data"
  let ?ph = "map (\<lambda>r. normalize_phone (cell_of r ''Mobile'')) (rows data)"
  from sf obtain first_name predicted age where
    fn: "column data ''FirstName'' = Inr first_name" and
    p: "collect (map2 predicted_birth ?st ?d) = Inr predicted" and
    a: "collect (map2 (child_age E) ?st ?d) = Inr age" and
    out: "scored = map (scored_row (rows data) first_name ?ph ?d ?st predicted age) [0 ..< ?n]"
    by (rule score_frame_Inr)
  have ph: "map Mobile_norm scored = ?ph" using sf by (rule score_frame_phones)
  have ld: "length ?d = length ?st" by (simp add: length_build_register_date)
  have pi: "predicted_birth (?st ! i) (?d ! i) = Inr (predicted ! i)"
    using map2_nth_Inr[OF p _ ld] i by simp
  have ai: "child_age E (?st ! i) (?d ! i) = Inr (age ! i)"
    using map2_nth_Inr[OF a _ ld] i by simp
  have fi: "first_name ! i = cell_of (rows data ! i) ''FirstName''"
    using fn i by (auto simp: column_def split: if_splits)
  have r: "scored ! i = scored_row (rows data) first_name ?ph ?d ?st predicted age i"
    using out i by simp
  show ?thesis
    unfolding row_facts_def ph r
    using i pi ai fi by (simp add: scored_row_def Let_def duplicated_all_def)
qed

lemma score_frame_rows:
  assumes "score_frame E data = Inr scored" "r \<in> set scored"
  shows "row_facts E (map Mobile_norm scored) r"
proof -
  from assms(2) obtain i where "i < length scored" "r = scored ! i"
    by (metis in_set_conv_nth)
  with assms(1) show ?thesis
    using score_frame_nth length_score_frame by metis
qed

lemma count_list_sort_values:
  "count_list (map f (sort_values xs)) v = count_list (map f xs) v"
proof -
  have "mset (map f (sort_values xs)) = mset (map f xs)"
    by (simp add: sort_values_def)
  then show ?thesis by (metis count_mset)
qed

lemma main_Some:
  assumes "main E files = Some (Inr out)"
  obtains scored where "files \<noteq> []" "score_frame E (merge_files files) = Inr scored"
    "out = sort_values scored"
  using assms by (auto simp: main_def split: if_splits sum.splits)

lemma main_rows:
  assumes "main E files = Some (Inr out)" "r \<in> set out"
  shows "row_facts E (map Mobile_norm out) r"
proof -
  from assms(1) obtain scored where s: "score_frame E (merge_files files) = Inr scored"
    and o: "out = sort_values scored" by (rule main_Some)
  have "r \<in> set scored" using assms(2) o by (simp add: sort_values_def)
  with s have "row_facts E (map Mobile_norm scored) r" by (rule score_frame_rows)
  then show ?thesis
    unfolding row_facts_def o count_list_sort_values .
qed

lemma length_merge_files:
  "length (rows (merge_files files)) = sum_list (map (\<lambda>f. length (sheet_rows f)) files)"
  by (simp add: merge_files_def concat_frames_def tag_source_def length_concat comp_def)

section \<open>The sample run, evaluated\<close>

lemma sample_merge: "merge_files sample_files = sample_frame"
  by (simp add: merge_files_def sample_files_def concat_frames_def tag_source_def sample_frame_def)

lemma nat_digits_small: "n < 10 \<Longrightarrow> nat_digits n = [digit_char n]"
  by (simp add: nat_digits.simps)

lemma nat_digits_large: "10 \<le> n \<Longrightarrow> nat_digits n = nat_digits (n div 10) @ [digit_char (n mod 10)]"
  by (subst nat_digits.simps) simp

lemma sample_int_str: "int_str 12345 = ''12345''"
  by (simp add: int_str_def nat_digits_small nat_digits_large digit_char_def)

lemma sample_phones:
  "map (\<lambda>r. normalize_phone (cell_of r ''Mobile'')) (rows sample_frame)
     = [''84901234567'', ''12345'', [], ''84901234567'', []]"
  by (simp add: sample_frame_def cell_of_def normalize_phone_def isna_def sample_int_str
      strip_def is_space_def sub_dot_zero_def sub_non_digits_def is_digit_def)

lemma sample_dates:
  "build_register_date sample_env sample_frame
     = [Some 1709596800000000000, Some 1709596800000000000, Some 1420070400000000000,
        Some 1706745600000000000, None]"
  by (simp add: build_register_date_def date_fallback_def text_dates_def date_cells_def
      sample_frame_def sample_env_def sample_text_def cell_of_def)

lemma sample_status:
  "map pregnancy_status (rows sample_frame) = [Pregnant, Unknown, Has_Child, Has_Child, Unknown]"
  by (simp add: sample_frame_def pregnancy_status_def cell_of_def isna_def)

lemma sample_predicted:
  "collect (map2 predicted_birth [Pregnant, Unknown, Has_Child, Has_Child, Unknown]
      [Some 1709596800000000000, Some 1709596800000000000, Some 1420070400000000000,
       Some 1706745600000000000, None])
     = Inr [Some 1721692800000000000, None, None, None, None]"
  by (simp add: predicted_birth_def add_overflowsafe_def int64_max_def days_def
      PREDICT_REMAINING_WEEKS_def)

lemma sample_age:
  "collect (map2 (child_age sample_env) [Pregnant, Unknown, Has_Child, Has_Child, Unknown]
      [Some 1709596800000000000, Some 1709596800000000000, Some 1420070400000000000,
       Some 1706745600000000000, None])
     = Inr [None, None, Some (721 / 5), Some (168 / 5), None]"
  by (simp add: child_age_def add_overflowsafe_def int64_max_def days_def sample_env_def
      sample_round_months_def)

lemma sample_score_frame: "score_frame sample_env sample_frame = Inr sample_scored"
proof -
  have m: "column sample_frame ''Mobile'' = Inr (map (\<lambda>r. cell_of r ''Mobile'') (rows sample_frame))"
    by (simp add: column_def sample_frame_def)
  have f: "column sample_frame ''FirstName''
      = Inr [StrCell ''Lan'', Null, StrCell ''Mai'', StrCell ''Hoa'', Null]"
    by (simp add: column_def sample_frame_def cell_of_def)
  have n: "length (rows sample_frame) = 5" "[0 ..< 5] = [0, 1, 2, 3, 4]"
    by (simp_all add: sample_frame_def upt_rec)
  have r: "rows sample_frame = map raw [sample_row_lan, sample_row_anon, sample_row_mai, sample_row_hoa, sample_row_blank]"
    by (simp add: sample_frame_def sample_row_lan_def sample_row_anon_def sample_row_mai_def
        sample_row_hoa_def sample_row_blank_def)
  note defs = scored_row_def Let_def duplicated_all_def raw_score_def clip_def astype_int_def
        isna_def fillna0_def cut_label_def DEFAULT_FAKE_THRESHOLD_def
  have s0: "scored_row [raw sample_row_lan, raw sample_row_anon, raw sample_row_mai, raw sample_row_hoa, raw sample_row_blank]
            [StrCell ''Lan'', Null, StrCell ''Mai'', StrCell ''Hoa'', Null]
            [''84901234567'', ''12345'', [], ''84901234567'', []]
            [Some 1709596800000000000, Some 1709596800000000000, Some 1420070400000000000,
             Some 1706745600000000000, None]
            [Pregnant, Unknown, Has_Child, Has_Child, Unknown]
            [Some 1721692800000000000, None, None, None, None]
            [None, None, Some (721 / 5), Some (168 / 5), None] 0
          = sample_row_lan"
    by (simp add: defs sample_row_lan_def)
  have s1: "scored_row [raw sample_row_lan, raw sample_row_anon, raw sample_row_mai, raw sample_row_hoa, raw sample_row_blank]
            [StrCell ''Lan'', Null, StrCell ''Mai'', StrCell ''Hoa'', Null]
            [''84901234567'', ''12345'', [], ''84901234567'', []]
            [Some 1709596800000000000, Some 1709596800000000000, Some 1420070400000000000,
             Some 1706745600000000000, None]
            [Pregnant, Unknown, Has_Child, Has_Child, Unknown]
            [Some 1721692800000000000, None, None, None, None]
            [None, None, Some (721 / 5), Some (168 / 5), None] (Suc 0)
          = sample_row_anon"
    by (simp add: defs sample_row_anon_def)
  have s2: "scored_row [raw sample_row_lan, raw sample_row_anon, raw sample_row_mai, raw sample_row_hoa, raw sample_row_blank]
            [StrCell ''Lan'', Null, StrCell ''Mai'', StrCell ''Hoa'', Null]
            [''84901234567'', ''12345'', [], ''84901234567'', []]
            [Some 1709596800000000000, Some 1709596800000000000, Some 1420070400000000000,
             Some 1706745600000000000, None]
            [Pregnant, Unknown, Has_Child, Has_Child, Unknown]
            [Some 1721692800000000000, None, None, None, None]
            [None, None, Some (721 / 5), Some (168 / 5), None] 2
          = sample_row_mai"
    by (simp add: defs sample_row_mai_def)
  have s3: "scored_row [raw sample_row_lan, raw sample_row_anon, raw sample_row_mai, raw sample_row_hoa, raw sample_row_blank]
            [StrCell ''Lan'', Null, StrCell ''Mai'', StrCell ''Hoa'', Null]
            [''84901234567'', ''12345'', [], ''84901234567'', []]
            [Some 1709596800000000000, Some 1709596800000000000, Some 1420070400000000000,
             Some 1706745600000000000, None]
            [Pregnant, Unknown, Has_Child, Has_Child, Unknown]
            [Some 1721692800000000000, None, None, None, None]
            [None, None, Some (721 / 5), Some (168 / 5), None] 3
          = sample_row_hoa"
    by (simp add: defs sample_row_hoa_def)
  have s4: "scored_row [raw sample_row_lan, raw sample_row_anon, raw sample_row_mai, raw sample_row_hoa, raw sample_row_blank]
            [StrCell ''Lan'', Null, StrCell ''Mai'', StrCell ''Hoa'', Null]
            [''84901234567'', ''12345'', [], ''84901234567'', []]
            [Some 1709596800000000000, Some 1709596800000000000, Some 1420070400000000000,
             Some 1706745600000000000, None]
            [Pregnant, Unknown, Has_Child, Has_Child, Unknown]
            [Some 1721692800000000000, None, None, None, None]
            [None, None, Some (721 / 5), Some (168 / 5), None] 4
          = sample_row_blank"
    by (simp add: defs sample_row_blank_def)
  show ?thesis
    unfolding score_frame_def m sum.case map_map comp_def sample_phones sample_dates sample_status
      Let_def sample_predicted sample_age f n sample_scored_def
    unfolding r
    by (simp add: s0 s1 s2 s3 s4)
qed

lemma sample_sorted: "sort_values sample_scored = sample_out"
  by (simp add: sort_values_def sample_scored_def sample_out_def date_key_def sample_row_lan_def
      sample_row_anon_def sample_row_mai_def sample_row_hoa_def sample_row_blank_def)

lemma sample_main: "main sample_env sample_files = Some (Inr sample_out)"
  by (simp add: main_def sample_merge sample_score_frame sample_sorted) (simp add: sample_files_def)

section \<open>The date resolver\<close>

lemma sample_ymd_dates:
  "fragment_dates sample_env sample_ymd_frame = [Some 1706745600000000000, None, Some 1709596800000000000]"
  by (simp add: fragment_dates_def ymd_cells_def sample_ymd_frame_def sample_env_def
      sample_ymd_def cell_of_def)

text \<open>
  Claim C1. \<^verbatim>\<open>build_register_date\<close> decides once for the whole frame. When the frame has
  the three fragment columns and fewer than 90 percent of its rows failed to parse from
  them, the result is the column parsed from the fragments, for every row: a row whose
  fragments failed has no date, whatever its date text holds. When that attempt is
  rejected or the columns are missing, every row is parsed from the \<^verbatim>\<open>Date\<close> column if
  the frame has one, and has no date otherwise.
\<close>

theorem build_register_date_two_tier:
  assumes "i < length (rows df)"
  shows "({''Year'', ''Month.1'', ''Day''} \<subseteq> set (columns df)
            \<and> 10 * length (filter (\<lambda>d. d = None) (fragment_dates E df)) < 9 * length (rows df)
          \<longrightarrow> build_register_date E df = fragment_dates E df
              \<and> build_register_date E df ! i = to_datetime_ymd E (ymd_cells df) (ymd_cells df ! i)
              \<and> ymd_cells df ! i
                  = (cell_of (rows df ! i) ''Year'', cell_of (rows df ! i) ''Month.1'',
                     cell_of (rows df ! i) ''Day''))
         \<and> (\<not> ({''Year'', ''Month.1'', ''Day''} \<subseteq> set (columns df)
                \<and> 10 * length (filter (\<lambda>d. d = None) (fragment_dates E df)) < 9 * length (rows df))
              \<and> ''Date'' \<in> set (columns df)
          \<longrightarrow> build_register_date E df ! i
                = to_datetime_text E (date_cells df) (cell_of (rows df ! i) ''Date''))
         \<and> (\<not> ({''Year'', ''Month.1'', ''Day''} \<subseteq> set (columns df)
                \<and> 10 * length (filter (\<lambda>d. d = None) (fragment_dates E df)) < 9 * length (rows df))
              \<and> ''Date'' \<notin> set (columns df)
          \<longrightarrow> build_register_date E df ! i = None)"
proof -
  have n: "length (fragment_dates E df) = length (rows df)"
    by (simp add: fragment_dates_def ymd_cells_def)
  have ne: "rows df \<noteq> []" using assms by auto
  have acc: "isna_mean_below (fragment_dates E df)
      = (10 * length (filter (\<lambda>d. d = None) (fragment_dates E df)) < 9 * length (rows df))"
    using ne by (simp add: isna_mean_below_def n fragment_dates_def ymd_cells_def)
  have fr: "fragment_dates E df ! i = to_datetime_ymd E (ymd_cells df) (ymd_cells df ! i)"
    "ymd_cells df ! i
      = (cell_of (rows df ! i) ''Year'', cell_of (rows df ! i) ''Month.1'', cell_of (rows df ! i) ''Day'')"
    using assms by (simp_all add: fragment_dates_def ymd_cells_def)
  have fb: "date_fallback E df ! i
      = (if ''Date'' \<in> set (columns df)
         then to_datetime_text E (date_cells df) (cell_of (rows df ! i) ''Date'') else None)"
    using assms by (simp add: date_fallback_def text_dates_def date_cells_def)
  show ?thesis
    unfolding build_register_date_def Let_def acc using fr fb by simp
qed

theorem build_register_date_two_tier_witness:
  "build_register_date sample_env sample_ymd_frame
     = [Some 1706745600000000000, None, Some 1709596800000000000]
   \<and> to_datetime_text sample_env (date_cells sample_ymd_frame)
         (cell_of (rows sample_ymd_frame ! 1) ''Date'') = Some 1709596800000000000
   \<and> build_register_date sample_env sample_frame ! 3 = Some 1706745600000000000
   \<and> build_register_date sample_env sample_bare_frame ! 0 = None"
proof -
  have a: "build_register_date sample_env sample_ymd_frame
     = [Some 1706745600000000000, None, Some 1709596800000000000]"
    using build_register_date_two_tier[of 1 sample_ymd_frame sample_env]
    by (simp add: sample_ymd_dates) (simp add: sample_ymd_frame_def)
  have b: "to_datetime_text sample_env (date_cells sample_ymd_frame)
         (cell_of (rows sample_ymd_frame ! 1) ''Date'') = Some 1709596800000000000"
    by (simp add: sample_ymd_frame_def sample_env_def sample_text_def cell_of_def)
  have c: "build_register_date sample_env sample_frame ! 3 = Some 1706745600000000000"
    using build_register_date_two_tier[of 3 sample_frame sample_env]
    by (simp add: sample_frame_def sample_env_def sample_text_def cell_of_def date_cells_def)
  have d: "build_register_date sample_env sample_bare_frame ! 0 = None"
    using build_register_date_two_tier[of 0 sample_bare_frame sample_env]
    by (simp add: sample_bare_frame_def)
  from a b c d show ?thesis by simp
qed

section \<open>The fake score\<close>

lemma raw_score_bounds: "0 \<le> raw_score f m d r a \<and> raw_score f m d r a \<le> 100"
  by (simp add: raw_score_def astype_int_def)

lemma clip_raw_score: "clip 0 100 (raw_score f m d r a) = raw_score f m d r a"
  using raw_score_bounds[of f m d r a] by (simp add: clip_def)

text \<open>
  Claim C2. The fake score of every exported row is the sum of five signals, each zero
  or its weight, clipped to the range from 0 to 100: missing first name 20, normalized
  phone shorter than 9 characters 25, normalized phone occurring more than once in the
  batch 20, missing registration date 15, child age (0 when missing) above 72 months 20.
  So the score lies between 0 and 100, and a row with a missing name, a phone of 5
  digits that no other row has, a date and no age above 72 scores 45.
\<close>

theorem fake_score_five_signals:
  assumes "main E files = Some (Inr out)" and "r \<in> set out"
  shows "Fake_Score r =
           clip 0 100
             ((if isna (cell_of (raw r) ''FirstName'') then 20 else 0)
              + (if length (Mobile_norm r) < 9 then 25 else 0)
              + (if 1 < count_list (map Mobile_norm out) (Mobile_norm r) then 20 else 0)
              + (if Register_Date r = None then 15 else 0)
              + (if 72 < (case Child_Age_Months r of None \<Rightarrow> 0 | Some a \<Rightarrow> a) then 20 else 0))
         \<and> 0 \<le> Fake_Score r \<and> Fake_Score r \<le> 100
         \<and> (isna (cell_of (raw r) ''FirstName'') \<and> length (Mobile_norm r) = 5
              \<and> count_list (map Mobile_norm out) (Mobile_norm r) = 1
              \<and> Register_Date r \<noteq> None
              \<and> \<not> 72 < (case Child_Age_Months r of None \<Rightarrow> 0 | Some a \<Rightarrow> a)
              \<longrightarrow> Fake_Score r = 45)"
proof -
  have "row_facts E (map Mobile_norm out) r" using assms by (rule main_rows)
  then have s: "Fake_Score r = clip 0 100 (raw_score (cell_of (raw r) ''FirstName'') (Mobile_norm r)
            (1 < count_list (map Mobile_norm out) (Mobile_norm r)) (Register_Date r) (Child_Age_Months r))"
    by (simp add: row_facts_def)
  show ?thesis
    unfolding s by (simp add: raw_score_def astype_int_def fillna0_def clip_def)
qed

theorem fake_score_five_signals_witness:
  "main sample_env sample_files = Some (Inr sample_out) \<and> sample_row_anon \<in> set sample_out
   \<and> isna (cell_of (raw sample_row_anon) ''FirstName'') \<and> length (Mobile_norm sample_row_anon) = 5
   \<and> count_list (map Mobile_norm sample_out) (Mobile_norm sample_row_anon) = 1
   \<and> Register_Date sample_row_anon = Some 1709596800000000000
   \<and> Child_Age_Months sample_row_anon = None
   \<and> Fake_Score sample_row_anon = 45"
proof -
  have m: "sample_row_anon \<in> set sample_out" by (simp add: sample_out_def)
  have h: "isna (cell_of (raw sample_row_anon) ''FirstName'')" "length (Mobile_norm sample_row_anon) = 5"
    "count_list (map Mobile_norm sample_out) (Mobile_norm sample_row_anon) = 1"
    "Register_Date sample_row_anon = Some 1709596800000000000"
    "Child_Age_Months sample_row_anon = None"
    by (simp_all add: sample_out_def sample_row_lan_def sample_row_anon_def sample_row_mai_def
        sample_row_hoa_def sample_row_blank_def isna_def cell_of_def)
  have "Fake_Score sample_row_anon = 45"
    using fake_score_five_signals[OF sample_main m] h by simp
  with sample_main m h show ?thesis by simp
qed



text \<open>
  Claim C4. The duplicate signal counts for every exported row whose normalized phone is
  also the normalized phone of a row at another position of the batch, whether that phone
  is empty or not: the score is the sum of the four other signals and of 20 exactly when
  such a row exists.
\<close>

theorem duplicate_phone_signal:
  assumes "main E files = Some (Inr out)" and "i < length out"
  shows "Fake_Score (out ! i) =
           (if isna (cell_of (raw (out ! i)) ''FirstName'') then 20 else 0)
           + (if length (Mobile_norm (out ! i)) < 9 then 25 else 0)
           + (if \<exists>j<length out. j \<noteq> i \<and> Mobile_norm (out ! j) = Mobile_norm (out ! i) then 20 else 0)
           + (if Register_Date (out ! i) = None then 15 else 0)
           + (if 72 < fillna0 (Child_Age_Months (out ! i)) then 20 else 0)"
proof -
  let ?r = "out ! i" and ?ph = "map Mobile_norm out"
  have "?r \<in> set out" using assms(2) by simp
  with assms(1) have "row_facts E ?ph ?r" by (rule main_rows)
  then have s: "Fake_Score ?r = raw_score (cell_of (raw ?r) ''FirstName'') (Mobile_norm ?r)
            (1 < count_list ?ph (Mobile_norm ?r)) (Register_Date ?r) (Child_Age_Months ?r)"
    by (simp add: row_facts_def clip_raw_score)
  have "(1 < count_list ?ph (?ph ! i)) = (\<exists>j<length ?ph. j \<noteq> i \<and> ?ph ! j = ?ph ! i)"
    using assms(2) by (intro count_list_gt1_iff) simp
  also have "\<dots> = (\<exists>j<length out. j \<noteq> i \<and> Mobile_norm (out ! j) = Mobile_norm (out ! i))"
    using assms(2) by auto
  finally have d: "(1 < count_list ?ph (Mobile_norm ?r))
      = (\<exists>j<length out. j \<noteq> i \<and> Mobile_norm (out ! j) = Mobile_norm (out ! i))"
    using assms(2) by simp
  show ?thesis
    unfolding s d by (simp add: raw_score_def astype_int_def)
qed

theorem duplicate_phone_signal_witness:
  "main sample_env sample_files = Some (Inr sample_out)
   \<and> Mobile_norm (sample_out ! 0) = ''84901234567'' \<and> Mobile_norm (sample_out ! 1) = ''84901234567''
   \<and> Fake_Score (sample_out ! 0) = 20 \<and> Fake_Score (sample_out ! 1) = 20
   \<and> Mobile_norm (sample_out ! 3) = [] \<and> Mobile_norm (sample_out ! 4) = []
   \<and> Fake_Score (sample_out ! 3) = 25 + 20 + 20 \<and> Fake_Score (sample_out ! 4) = 20 + 25 + 20 + 15"
proof -
  note rows = sample_out_def sample_row_lan_def sample_row_anon_def sample_row_mai_def
    sample_row_hoa_def sample_row_blank_def
  have d0: "\<exists>j<length sample_out. j \<noteq> 0 \<and> Mobile_norm (sample_out ! j) = Mobile_norm (sample_out ! 0)"
    by (intro exI[of _ 1]) (simp add: rows)
  have d1: "\<exists>j<length sample_out. j \<noteq> 1 \<and> Mobile_norm (sample_out ! j) = Mobile_norm (sample_out ! 1)"
    by (intro exI[of _ 0]) (simp add: rows)
  have d3: "\<exists>j<length sample_out. j \<noteq> 3 \<and> Mobile_norm (sample_out ! j) = Mobile_norm (sample_out ! 3)"
    by (intro exI[of _ 4]) (simp add: rows)
  have d4: "\<exists>j<length sample_out. j \<noteq> 4 \<and> Mobile_norm (sample_out ! j) = Mobile_norm (sample_out ! 4)"
    by (intro exI[of _ 3]) (simp add: rows)
  have l: "0 < length sample_out" "1 < length sample_out" "3 < length sample_out" "4 < length sample_out"
    by (simp_all add: sample_out_def)
  have f0: "Fake_Score (sample_out ! 0) = 20"
    unfolding duplicate_phone_signal[OF sample_main l(1)] if_P[OF d0]
    by (simp add: rows isna_def cell_of_def fillna0_def)
  have f1: "Fake_Score (sample_out ! 1) = 20"
    unfolding duplicate_phone_signal[OF sample_main l(2)] if_P[OF d1]
    by (simp add: rows isna_def cell_of_def fillna0_def)
  have f3: "Fake_Score (sample_out ! 3) = 25 + 20 + 20"
    unfolding duplicate_phone_signal[OF sample_main l(3)] if_P[OF d3]
    by (simp add: rows isna_def cell_of_def fillna0_def)
  have f4: "Fake_Score (sample_out ! 4) = 20 + 25 + 20 + 15"
    unfolding duplicate_phone_signal[OF sample_main l(4)] if_P[OF d4]
    by (simp add: rows isna_def cell_of_def fillna0_def)
  have p: "Mobile_norm (sample_out ! 0) = ''84901234567''" "Mobile_norm (sample_out ! 1) = ''84901234567''"
    "Mobile_norm (sample_out ! 3) = []" "Mobile_norm (sample_out ! 4) = []"
    by (simp_all add: rows)
  from sample_main p f0 f1 f3 f4 show ?thesis by blast
qed

section \<open>The predictor\<close>

text \<open>
  Claim C3, as the code has it. In every exported row at most one of the predicted birth
  date and the child age is set: the predicted birth date exactly when the status is
  \<^verbatim>\<open>Pregnant\<close> and the row has a registration date, the child age exactly when the status
  is \<^verbatim>\<open>Has_Child\<close> and the row has a registration date. A row of status \<^verbatim>\<open>Unknown\<close>, or
  without a registration date, has neither.
\<close>

theorem predictions_follow_status:
  assumes "main E files = Some (Inr out)" and "r \<in> set out"
  shows "(Predicted_Giving_Birth_Date r \<noteq> None)
           = (Pregnancy_Status r = Pregnant \<and> Register_Date r \<noteq> None)
         \<and> (Child_Age_Months r \<noteq> None)
           = (Pregnancy_Status r = Has_Child \<and> Register_Date r \<noteq> None)
         \<and> (Predicted_Giving_Birth_Date r = None \<or> Child_Age_Months r = None)"
proof -
  have f: "row_facts E (map Mobile_norm out) r" using assms by (rule main_rows)
  then have p: "predicted_birth (Pregnancy_Status r) (Register_Date r) = Inr (Predicted_Giving_Birth_Date r)"
    and a: "child_age E (Pregnancy_Status r) (Register_Date r) = Inr (Child_Age_Months r)"
    unfolding row_facts_def by blast+
  have 1: "(Predicted_Giving_Birth_Date r \<noteq> None)
           = (Pregnancy_Status r = Pregnant \<and> Register_Date r \<noteq> None)"
    using p by (auto simp: predicted_birth_def split: if_splits option.splits sum.splits) metis+
  have 2: "(Child_Age_Months r \<noteq> None)
           = (Pregnancy_Status r = Has_Child \<and> Register_Date r \<noteq> None)"
    using a by (auto simp: child_age_def split: if_splits option.splits sum.splits) metis+
  from 1 2 show ?thesis by auto
qed

theorem predictions_follow_status_witness:
  "main sample_env sample_files = Some (Inr sample_out) \<and> sample_row_lan \<in> set sample_out
   \<and> Pregnancy_Status sample_row_lan = Pregnant
   \<and> Predicted_Giving_Birth_Date sample_row_lan = Some 1721692800000000000
   \<and> Child_Age_Months sample_row_lan = None"
proof -
  have m: "sample_row_lan \<in> set sample_out" by (simp add: sample_out_def)
  have "Predicted_Giving_Birth_Date sample_row_lan = None \<or> Child_Age_Months sample_row_lan = None"
    using predictions_follow_status[OF sample_main m] by simp
  then have "Child_Age_Months sample_row_lan = None"
    by (simp add: sample_row_lan_def)
  with sample_main m show ?thesis by (simp add: sample_row_lan_def)
qed

text \<open>
  The third exported row of the sample has status \<^verbatim>\<open>Unknown\<close> and neither prediction, so
  it is not the case that exactly one of the two is set in every row.
\<close>

theorem exactly_one_prediction_counterexample:
  "main sample_env sample_files = Some (Inr sample_out)
   \<and> sample_out ! 2 = sample_row_anon
   \<and> Pregnancy_Status (sample_out ! 2) = Unknown
   \<and> Predicted_Giving_Birth_Date (sample_out ! 2) = None
   \<and> Child_Age_Months (sample_out ! 2) = None"
  using sample_main by (simp add: sample_out_def sample_row_anon_def)

text \<open>
  Claim C6. In every exported row of status \<^verbatim>\<open>Pregnant\<close>, the predicted birth date is
  the registration date plus seven days for each of the remaining weeks, which is 140
  days for the 20 weeks configured; a row without a registration date has no prediction.
\<close>

theorem predicted_birth_date_140_days:
  assumes "main E files = Some (Inr out)" and "r \<in> set out"
    and "Pregnancy_Status r = Pregnant"
  shows "(case Register_Date r of
            None \<Rightarrow> Predicted_Giving_Birth_Date r = None
          | Some D \<Rightarrow> Predicted_Giving_Birth_Date r = Some (D + days (PREDICT_REMAINING_WEEKS * 7))
                \<and> Predicted_Giving_Birth_Date r = Some (D + days 140))"
proof -
  have f: "row_facts E (map Mobile_norm out) r" using assms(1,2) by (rule main_rows)
  then have p: "predicted_birth Pregnant (Register_Date r) = Inr (Predicted_Giving_Birth_Date r)"
    using assms(3) unfolding row_facts_def by metis
  then show ?thesis
    by (auto simp: predicted_birth_def add_overflowsafe_def Let_def PREDICT_REMAINING_WEEKS_def
        split: option.splits sum.splits if_splits)
qed

theorem predicted_birth_date_140_days_witness:
  "main sample_env sample_files = Some (Inr sample_out) \<and> sample_row_lan \<in> set sample_out
   \<and> Pregnancy_Status sample_row_lan = Pregnant
   \<and> Register_Date sample_row_lan = Some 1709596800000000000
   \<and> Predicted_Giving_Birth_Date sample_row_lan = Some (1709596800000000000 + days 140)"
proof -
  have m: "sample_row_lan \<in> set sample_out" by (simp add: sample_out_def)
  have s: "Pregnancy_Status sample_row_lan = Pregnant"
    and d: "Register_Date sample_row_lan = Some 1709596800000000000"
    by (simp_all add: sample_row_lan_def)
  have "Predicted_Giving_Birth_Date sample_row_lan = Some (1709596800000000000 + days 140)"
    using predicted_birth_date_140_days[OF sample_main m s, unfolded d option.case]
    by (rule conjunct2)
  with sample_main m s d show ?thesis by simp
qed

section \<open>Confidence label and sales flag\<close>

lemma cut_label_in_range:
  "0 \<le> s \<Longrightarrow> s \<le> 100 \<Longrightarrow>
     cut_label s = Some (if s \<le> 30 then High else if s \<le> 70 then Medium else Low)"
  by (simp add: cut_label_def)

lemma row_facts_score_range:
  assumes "row_facts E ph r"
  shows "0 \<le> Fake_Score r" "Fake_Score r \<le> 100"
  using assms raw_score_bounds[of "cell_of (raw r) ''FirstName''" "Mobile_norm r"
      "1 < count_list ph (Mobile_norm r)" "Register_Date r" "Child_Age_Months r"]
  by (simp_all add: row_facts_def clip_raw_score)

text \<open>
  Claim C5. The confidence label of every exported row is a function of its fake score,
  with bins closed above and open below: a score up to 30 gives \<^verbatim>\<open>High\<close>, a score above
  30 and up to 70 gives \<^verbatim>\<open>Medium\<close>, a score above 70 gives \<^verbatim>\<open>Low\<close>; so 30 gives
  \<^verbatim>\<open>High\<close>, 31 and 70 give \<^verbatim>\<open>Medium\<close>, 71 gives \<^verbatim>\<open>Low\<close>.
\<close>

theorem confidence_label_bins:
  assumes "main E files = Some (Inr out)" and "r \<in> set out"
  shows "Confidence_Label r = cut_label (Fake_Score r)
         \<and> Confidence_Label r
             = Some (if Fake_Score r \<le> 30 then High else if Fake_Score r \<le> 70 then Medium else Low)
         \<and> cut_label 30 = Some High \<and> cut_label 31 = Some Medium
         \<and> cut_label 70 = Some Medium \<and> cut_label 71 = Some Low"
proof -
  have f: "row_facts E (map Mobile_norm out) r" using assms by (rule main_rows)
  then have l: "Confidence_Label r = cut_label (Fake_Score r)"
    unfolding row_facts_def by blast
  have "cut_label (Fake_Score r)
      = Some (if Fake_Score r \<le> 30 then High else if Fake_Score r \<le> 70 then Medium else Low)"
    using row_facts_score_range[OF f] by (rule cut_label_in_range)
  with l show ?thesis by (simp add: cut_label_def)
qed

theorem confidence_label_bins_witness:
  "main sample_env sample_files = Some (Inr sample_out) \<and> sample_row_blank \<in> set sample_out
   \<and> Fake_Score sample_row_blank = 80 \<and> Confidence_Label sample_row_blank = Some Low"
proof -
  have m: "sample_row_blank \<in> set sample_out" by (simp add: sample_out_def)
  have s: "Fake_Score sample_row_blank = 80" by (simp add: sample_row_blank_def)
  have "Confidence_Label sample_row_blank
      = Some (if Fake_Score sample_row_blank \<le> 30 then High
              else if Fake_Score sample_row_blank \<le> 70 then Medium else Low)"
    using confidence_label_bins[OF sample_main m] by blast
  then have "Confidence_Label sample_row_blank = Some Low" by (simp add: s)
  with sample_main m s show ?thesis by simp
qed

text \<open>
  Claim C10. With the threshold of 70, an exported row is sales-ready exactly when its
  confidence label is \<^verbatim>\<open>High\<close> or \<^verbatim>\<open>Medium\<close>, and not sales-ready exactly when the
  label is \<^verbatim>\<open>Low\<close>.
\<close>

theorem sales_ready_iff_label:
  assumes "main E files = Some (Inr out)" and "r \<in> set out"
  shows "Sales_Ready r = (Confidence_Label r = Some High \<or> Confidence_Label r = Some Medium)
         \<and> (\<not> Sales_Ready r) = (Confidence_Label r = Some Low)
         \<and> Sales_Ready r = (Fake_Score r \<le> 70)"
proof -
  have f: "row_facts E (map Mobile_norm out) r" using assms by (rule main_rows)
  then have l: "Confidence_Label r = cut_label (Fake_Score r)"
    and s: "Sales_Ready r = (Fake_Score r \<le> DEFAULT_FAKE_THRESHOLD)"
    unfolding row_facts_def by blast+
  have c: "cut_label (Fake_Score r)
      = Some (if Fake_Score r \<le> 30 then High else if Fake_Score r \<le> 70 then Medium else Low)"
    using row_facts_score_range[OF f] by (rule cut_label_in_range)
  show ?thesis
    unfolding l s c by (simp add: DEFAULT_FAKE_THRESHOLD_def)
qed

theorem sales_ready_iff_label_witness:
  "main sample_env sample_files = Some (Inr sample_out)
   \<and> sample_row_blank \<in> set sample_out \<and> sample_row_mai \<in> set sample_out
   \<and> Confidence_Label sample_row_blank = Some Low \<and> \<not> Sales_Ready sample_row_blank
   \<and> Confidence_Label sample_row_mai = Some Medium \<and> Sales_Ready sample_row_mai"
proof -
  have m: "sample_row_blank \<in> set sample_out" "sample_row_mai \<in> set sample_out"
    by (simp_all add: sample_out_def)
  have l: "Confidence_Label sample_row_blank = Some Low" "Confidence_Label sample_row_mai = Some Medium"
    by (simp_all add: sample_row_blank_def sample_row_mai_def)
  have "\<not> Sales_Ready sample_row_blank"
    using sales_ready_iff_label[OF sample_main m(1)] l(1) by simp
  moreover have "Sales_Ready sample_row_mai"
    using sales_ready_iff_label[OF sample_main m(2)] l(2) by simp
  ultimately show ?thesis using sample_main m l by simp
qed

section \<open>Merge and ranking\<close>

text \<open>
  Claim C7. The exported frame has as many rows as all the input sheets together.
\<close>

theorem row_count_preserved:
  assumes "main E files = Some (Inr out)"
  shows "length out = sum_list (map (\<lambda>f. length (sheet_rows f)) files)"
proof -
  from assms obtain scored where s: "score_frame E (merge_files files) = Inr scored"
    and o: "out = sort_values scored" by (rule main_Some)
  have "length out = length scored" by (simp add: o sort_values_def)
  also have "\<dots> = length (rows (merge_files files))" using s by (rule length_score_frame)
  finally show ?thesis by (simp add: length_merge_files)
qed

theorem row_count_preserved_witness:
  "main sample_env sample_files = Some (Inr sample_out)
   \<and> map (\<lambda>f. length (sheet_rows f)) sample_files = [3, 2] \<and> length sample_out = 5"
proof -
  have "length sample_out = sum_list (map (\<lambda>f. length (sheet_rows f)) sample_files)"
    using sample_main by (rule row_count_preserved)
  moreover have "map (\<lambda>f. length (sheet_rows f)) sample_files = [3, 2]"
    by (simp add: sample_files_def)
  ultimately show ?thesis using sample_main by simp
qed

lemma sort_values_sorted:
  assumes "i < j" "j < length xs"
  shows "(Fake_Score (sort_values xs ! i), date_key (Register_Date (sort_values xs ! i)))
         \<le> (Fake_Score (sort_values xs ! j), date_key (Register_Date (sort_values xs ! j)))"
proof -
  let ?k = "\<lambda>r. (Fake_Score r, date_key (Register_Date r))"
  have "sorted (map ?k (sort_values xs))" by (simp add: sort_values_def)
  moreover have "i \<le> j" "j < length (map ?k (sort_values xs))"
    using assms by (simp_all add: sort_values_def)
  ultimately have "map ?k (sort_values xs) ! i \<le> map ?k (sort_values xs) ! j"
    by (rule sorted_nth_mono)
  then show ?thesis using assms by (simp add: sort_values_def)
qed

lemma date_key_le: "(date_key (Some a) \<le> date_key (Some b)) = (a \<le> b)"
  by (simp add: date_key_def)

text \<open>
  Claim C8. The exported rows are in ascending order of fake score; of two rows with the
  same score that both have a registration date, the earlier one in the export has the
  earlier or the same date; and the exported rows are the scored rows, each as often as
  it was scored, so that sorting changes no field and drops no row.
\<close>

theorem export_sorted_by_score_then_date:
  assumes "main E files = Some (Inr out)"
  shows "sorted (map Fake_Score out)
         \<and> (\<forall>i j a b. i < j \<and> j < length out \<and> Fake_Score (out ! i) = Fake_Score (out ! j)
                \<and> Register_Date (out ! i) = Some a \<and> Register_Date (out ! j) = Some b
              \<longrightarrow> a \<le> b)
         \<and> (\<exists>scored. score_frame E (merge_files files) = Inr scored \<and> mset out = mset scored)"
proof -
  from assms obtain scored where s: "score_frame E (merge_files files) = Inr scored"
    and o: "out = sort_values scored" by (rule main_Some)
  have len: "length out = length scored" by (simp add: o sort_values_def)
  have k: "(Fake_Score (out ! i), date_key (Register_Date (out ! i)))
         \<le> (Fake_Score (out ! j), date_key (Register_Date (out ! j)))"
    if "i < j" "j < length out" for i j
    unfolding o using that len by (intro sort_values_sorted) simp_all
  have "Fake_Score (out ! i) \<le> Fake_Score (out ! j)" if "i < j" "j < length out" for i j
    using k[OF that] by (auto simp: less_eq_prod_simp)
  then have 1: "sorted (map Fake_Score out)"
    by (simp add: sorted_iff_nth_mono_less)
  have 2: "a \<le> b"
    if "i < j" "j < length out" "Fake_Score (out ! i) = Fake_Score (out ! j)"
      "Register_Date (out ! i) = Some a" "Register_Date (out ! j) = Some b" for i j a b
    using k[OF that(1,2)] that(3,4,5) by (simp add: less_eq_prod_simp date_key_le)
  have 3: "mset out = mset scored" by (simp add: o sort_values_def)
  from 1 2 3 s show ?thesis by blast
qed

theorem export_sorted_by_score_then_date_witness:
  "main sample_env sample_files = Some (Inr sample_out)
   \<and> score_frame sample_env (merge_files sample_files) = Inr sample_scored
   \<and> sample_scored ! 0 = sample_out ! 1 \<and> sample_scored ! 3 = sample_out ! 0
   \<and> Fake_Score (sample_out ! 0) = 20 \<and> Fake_Score (sample_out ! 1) = 20
   \<and> Register_Date (sample_out ! 0) = Some 1706745600000000000
   \<and> Register_Date (sample_out ! 1) = Some 1709596800000000000
   \<and> (1706745600000000000 :: int) \<le> 1709596800000000000
   \<and> map Fake_Score sample_out = [20, 20, 45, 65, 80]
   \<and> sorted (map Fake_Score sample_out)
   \<and> mset sample_out = mset sample_scored"
proof -
  note rows = sample_out_def sample_scored_def sample_row_lan_def sample_row_anon_def
    sample_row_mai_def sample_row_hoa_def sample_row_blank_def
  note t = export_sorted_by_score_then_date[OF sample_main]
  have sf: "score_frame sample_env (merge_files sample_files) = Inr sample_scored"
    by (simp add: sample_merge sample_score_frame)
  have f: "0 < (1::nat) \<and> 1 < length sample_out \<and> Fake_Score (sample_out ! 0) = Fake_Score (sample_out ! 1)
      \<and> Register_Date (sample_out ! 0) = Some 1706745600000000000
      \<and> Register_Date (sample_out ! 1) = Some 1709596800000000000"
    by (simp add: rows)
  have le: "(1706745600000000000 :: int) \<le> 1709596800000000000"
    using t f by blast
  have so: "sorted (map Fake_Score sample_out)" using t by blast
  have ms: "mset sample_out = mset sample_scored" using t sf by auto
  have v: "sample_scored ! 0 = sample_out ! 1" "sample_scored ! 3 = sample_out ! 0"
    "Fake_Score (sample_out ! 0) = 20" "Fake_Score (sample_out ! 1) = 20"
    "map Fake_Score sample_out = [20, 20, 45, 65, 80]"
    by (simp_all add: rows)
  from sample_main sf f le so ms v show ?thesis by blast
qed

end
